theory Spec2Isabelle
  imports Complex_Main
begin

section \<open>Data model of \<open>Problem.py\<close>\<close>

text \<open>
  Python integers are unbounded, so extents, coordinates, loads and counters are \<open>int\<close>.
  An extent (item size, bin size, corner of an EMS) is a Python 3-tuple of integers.
  An EMS is the two-element list \<open>[min corner, max corner]\<close>.
  An entry of the working item list is a 3-tuple, or Python's \<open>None\<close> once
  \<open>get_size\<close> has returned nothing for it: \<open>item = extent option\<close>.
\<close>

type_synonym extent = "int \<times> int \<times> int"
type_synonym ems = "extent \<times> extent"
type_synonym item = "extent option"

datatype error = ValueError | TypeError | IndexError | AttributeError

text \<open>
  The floats the program computes with. Genes of a solution vector are taken as exact
  reals; a fitness is a finite real, an infinity (\<open>np.inf\<close> is the initial best fitness,
  and numpy's true division by zero gives a signed infinity) or not-a-number.
\<close>

datatype pyfloat = Fin real | PInf | NInf | NaN

text \<open>\<open>t[i]\<close> for a 3-tuple and \<open>i\<close> in \<open>range(3)\<close>.\<close>

fun axis :: "extent \<Rightarrow> nat \<Rightarrow> int" where
  "axis (x, y, z) i = (if i = 0 then x else if i = 1 then y else z)"

text \<open>
  Python compares tuples lexicographically: \<open>a >= b\<close> and \<open>a <= b\<close> on 3-tuples of
  integers each give one boolean.
\<close>

fun tuple_ge :: "extent \<Rightarrow> extent \<Rightarrow> bool" where
  "tuple_ge (a1, a2, a3) (b1, b2, b3) =
     (a1 > b1 \<or> (a1 = b1 \<and> (a2 > b2 \<or> (a2 = b2 \<and> a3 \<ge> b3))))"

fun tuple_le :: "extent \<Rightarrow> extent \<Rightarrow> bool" where
  "tuple_le (a1, a2, a3) (b1, b2, b3) =
     (a1 < b1 \<or> (a1 = b1 \<and> (a2 < b2 \<or> (a2 = b2 \<and> a3 \<le> b3))))"

section \<open>\<open>Placement.Bin\<close>\<close>

record bin =
  size_of :: extent
  EMSs :: "ems list"
  load :: int

text \<open>\<open>Bin.__init__\<close>: one EMS spanning the whole bin, load 0.\<close>

definition Bin_init :: "extent \<Rightarrow> bin" where
  "Bin_init sz = \<lparr> size_of = sz, EMSs = [((0, 0, 0), sz)], load = 0 \<rparr>"

text \<open>
  \<open>Bin.fit\<close>: the loop \<open>for i in range(3)\<close> returns False at the first axis on which
  the item sticks out, True after the loop. Subscripting a \<open>None\<close> item raises TypeError.
\<close>

primrec fit_loop :: "extent \<Rightarrow> ems \<Rightarrow> nat list \<Rightarrow> bool" where
  "fit_loop it E [] = True"
| "fit_loop it E (i # rest) =
     (if axis (fst E) i + axis it i > axis (snd E) i then False else fit_loop it E rest)"

definition fit :: "item \<Rightarrow> ems \<Rightarrow> error + bool" where
  "fit item E = (case item of None \<Rightarrow> Inl TypeError | Some it \<Rightarrow> Inr (fit_loop it E [0, 1, 2]))"

text \<open>The squared distance computed in \<open>Bin.choose\<close> for an EMS that fits.\<close>

definition distance :: "extent \<Rightarrow> extent \<Rightarrow> ems \<Rightarrow> int" where
  "distance sz it E =
     (let x = axis (fst E) 0 + axis it 0;
          y = axis (fst E) 1 + axis it 1;
          z = axis (fst E) 2 + axis it 2
      in (axis sz 0 - x) ^ 2 + (axis sz 1 - y) ^ 2 + (axis sz 2 - z) ^ 2)"

text \<open>
  \<open>Bin.choose\<close>: the loop over \<open>self.EMSs\<close>, carrying \<open>max_distance\<close> and
  \<open>selected_EMS\<close>; started with \<open>-1\<close> and \<open>None\<close>. (\<open>choose\<close> is the binomial
  coefficient's infix in HOL, hence the name \<open>choose_EMS\<close>.)
\<close>

fun choose_loop :: "extent \<Rightarrow> item \<Rightarrow> ems list \<Rightarrow> int \<Rightarrow> ems option \<Rightarrow> error + ems option" where
  "choose_loop sz item [] max_distance selected_EMS = Inr selected_EMS"
| "choose_loop sz item (E # rest) max_distance selected_EMS =
     (case fit item E of
        Inl e \<Rightarrow> Inl e
      | Inr fits \<Rightarrow>
          if fits \<and> distance sz (the item) E > max_distance
          then choose_loop sz item rest (distance sz (the item) E) (Some E)
          else choose_loop sz item rest max_distance selected_EMS)"

definition choose_EMS :: "bin \<Rightarrow> item \<Rightarrow> error + ems option" where
  "choose_EMS b item = choose_loop (size_of b) item (EMSs b) (- 1) None"

text \<open>
  \<open>Bin.inscribed\<close>: \<open>np.all(EMS1[0] >= EMS2[0]) and np.all(EMS1[1] <= EMS2[1])\<close>.
  The corners are tuples, so each comparison is Python's tuple comparison and
  \<open>np.all\<close> receives a single boolean.
\<close>

definition inscribed :: "ems \<Rightarrow> ems \<Rightarrow> bool" where
  "inscribed EMS1 EMS2 = (tuple_ge (fst EMS1) (fst EMS2) \<and> tuple_le (snd EMS1) (snd EMS2))"

text \<open>The validity loop of \<open>Bin.update\<close>: some axis with \<open>EMS[0][i] >= EMS[1][i]\<close>.\<close>

definition degenerate :: "ems \<Rightarrow> bool" where
  "degenerate E = list_ex (\<lambda>i. axis (fst E) i \<ge> axis (snd E) i) [0, 1, 2]"

text \<open>
  The loop \<open>for EMS in new_EMSs\<close> of \<open>Bin.update\<close>: a candidate is appended when it is
  not degenerate and not inscribed in an EMS of the list as it is at that moment
  (candidates appended earlier are in that list).
\<close>

fun add_candidates :: "ems list \<Rightarrow> ems list \<Rightarrow> ems list" where
  "add_candidates Es [] = Es"
| "add_candidates Es (c # cs) =
     add_candidates (if \<not> degenerate c \<and> \<not> list_ex (inscribed c) Es then Es @ [c] else Es) cs"

definition new_EMSs :: "extent \<Rightarrow> ems \<Rightarrow> ems list" where
  "new_EMSs it selected_EMS =
     (case (fst selected_EMS, it, snd selected_EMS) of
        ((x1, y1, z1), (ix, iy, iz), (x3, y3, z3)) \<Rightarrow>
          [((x1 + ix, y1, z1), (x3, y3, z3)),
           ((x1, y1 + iy, z1), (x3, y3, z3)),
           ((x1, y1, z1 + iz), (x3, y3, z3))])"

text \<open>
  \<open>Bin.update\<close>. \<open>item[0]\<close> on a \<open>None\<close> item raises TypeError before anything is
  changed; \<open>list.remove\<close> deletes the first equal element and raises ValueError when
  there is none.
\<close>

definition update :: "bin \<Rightarrow> item \<Rightarrow> ems \<Rightarrow> error + bin" where
  "update b item selected_EMS =
     (case item of
        None \<Rightarrow> Inl TypeError
      | Some it \<Rightarrow>
          if selected_EMS \<notin> set (EMSs b) then Inl ValueError
          else Inr (b \<lparr> EMSs := add_candidates (remove1 selected_EMS (EMSs b)) (new_EMSs it selected_EMS),
                        load := load b + axis it 0 * axis it 1 * axis it 2 \<rparr>))"

section \<open>Floats\<close>

text \<open>
  \<open>np.min(self.loads) / (volume)\<close> is numpy's true division of an integer by an integer:
  by zero it gives a signed infinity or not-a-number (with a warning, not an exception).
  Finite results are taken as exact reals.
\<close>

definition true_divide :: "int \<Rightarrow> int \<Rightarrow> pyfloat" where
  "true_divide a b =
     (if b = 0 then (if a > 0 then PInf else if a < 0 then NInf else NaN)
      else Fin (real_of_int a / real_of_int b))"

text \<open>\<open>self.used_bins + least_load\<close>: an integer plus a float.\<close>

fun int_plus :: "int \<Rightarrow> pyfloat \<Rightarrow> pyfloat" where
  "int_plus k (Fin r) = Fin (real_of_int k + r)"
| "int_plus k PInf = PInf"
| "int_plus k NInf = NInf"
| "int_plus k NaN = NaN"

text \<open>\<open>a < b\<close> on floats: false as soon as one side is not-a-number.\<close>

fun float_less :: "pyfloat \<Rightarrow> pyfloat \<Rightarrow> bool" where
  "float_less (Fin a) (Fin b) = (a < b)"
| "float_less (Fin a) PInf = True"
| "float_less NInf (Fin b) = True"
| "float_less NInf PInf = True"
| "float_less a b = False"

text \<open>\<open>np.min\<close> of a list of integers; it raises ValueError on an empty list.\<close>

fun np_min :: "int list \<Rightarrow> error + int" where
  "np_min [] = Inl ValueError"
| "np_min (x # xs) = Inr (fold min xs x)"

section \<open>\<open>Problem\<close> and \<open>Placement\<close>\<close>

text \<open>
  The Problem Record. \<open>load_data\<close> parses the file; \<open>Problem_init\<close> takes the parsed
  values (bin size, number of bins, items per bin, total volume, the item tuples) and sets
  the rest as \<open>Problem.__init__\<close> does.
\<close>

record problem =
  P_bin_size :: extent
  P_n_bins :: int
  P_n_items :: int
  P_total_volume :: int
  P_items :: "item list"
  P_total_items :: int
  P_used_bins :: int
  P_loads :: "int list option"
  best_fitness :: pyfloat

definition Problem_init :: "extent \<Rightarrow> int \<Rightarrow> int \<Rightarrow> int \<Rightarrow> extent list \<Rightarrow> problem" where
  "Problem_init bsz nb ni tv its =
     \<lparr> P_bin_size = bsz, P_n_bins = nb, P_n_items = ni, P_total_volume = tv,
       P_items = map Some its, P_total_items = ni * nb, P_used_bins = ni * nb,
       P_loads = None, best_fitness = PInf \<rparr>"

text \<open>
  The Placement Engine. \<open>self.items = problem.items\<close> binds the engine's item list to the
  very list object of the Problem Record, and \<open>decode\<close> writes into it in place: there is
  one item list, shared by the record and by every engine bound to it. The model keeps
  that list in the problem record (\<open>P_items\<close>); every function that reads or writes
  \<open>self.items\<close> takes the problem record and returns it.
\<close>

record placement =
  bin_size :: extent
  n_bins :: int
  n_items :: int
  total_volume :: int
  used_bins :: int
  total_items :: int
  bins :: "bin list"
  loads :: "int list option"

definition Placement_init :: "problem \<Rightarrow> placement" where
  "Placement_init pr =
     \<lparr> bin_size = P_bin_size pr, n_bins = P_n_bins pr, n_items = P_n_items pr,
       total_volume = P_total_volume pr, used_bins = 1,
       total_items = P_n_items pr * P_n_bins pr,
       bins = [Bin_init (P_bin_size pr)], loads = None \<rparr>"

subsection \<open>Solution decoder\<close>

text \<open>
  \<open>get_orientation\<close>: \<open>int(np.ceil(6 * gene))\<close>, on genes taken as exact reals. The
  float product \<open>6 * gene\<close> is exact for the dyadic genes of the explicit runs below
  (0, 1/8, 1/4, 1/2); its rounding on other genes, and the OverflowError that \<open>int\<close>
  raises once the product overflows to infinity, are outside this model.
\<close>

definition get_orientation :: "real \<Rightarrow> int" where
  "get_orientation gene = \<lceil>6 * gene\<rceil>"

text \<open>
  \<open>get_size\<close>: \<open>x, y, z = item\<close> raises TypeError on \<open>None\<close>; the \<open>elif\<close> chain has no
  \<open>else\<close>, so any other orientation returns \<open>None\<close>.
\<close>

fun get_size :: "item \<Rightarrow> int \<Rightarrow> error + item" where
  "get_size None orientation = Inl TypeError"
| "get_size (Some (x, y, z)) orientation =
     Inr (if orientation = 1 then Some (x, y, z)
          else if orientation = 2 then Some (x, z, y)
          else if orientation = 3 then Some (y, x, z)
          else if orientation = 4 then Some (y, z, x)
          else if orientation = 5 then Some (z, x, y)
          else if orientation = 6 then Some (z, y, x)
          else None)"

text \<open>
  \<open>np.argsort\<close>: the indices in ascending order of their keys. With its default kind
  numpy promises no particular order among indices of equal keys; the model takes the
  stable order there, so \<open>argsort\<close> is the code's order when the keys are pairwise
  distinct (\<open>is_argsort_unique\<close> below), as the priority genes of the explicit runs below
  are.
\<close>

definition argsort :: "real list \<Rightarrow> nat list" where
  "argsort xs = sort_key (\<lambda>i. xs ! i) [0..<length xs]"

text \<open>
  What \<open>np.argsort\<close> returns whatever the sort kind: a permutation of the indices along
  which the keys ascend.
\<close>

definition is_argsort :: "real list \<Rightarrow> nat list \<Rightarrow> bool" where
  "is_argsort xs orders =
     (distinct orders \<and> set orders = {0..<length xs} \<and> sorted (map (\<lambda>i. xs ! i) orders))"

text \<open>
  The loop of \<open>decode\<close> over \<open>range(self.total_items)\<close>, on the one item list: step
  \<open>i\<close> reads \<open>self.items[i]\<close> as the list is at that moment and writes
  \<open>self.items[orders[i]]\<close>. Reading or writing past the end raises IndexError. The
  list is returned as it is when the loop stops.
\<close>

fun decode_loop :: "real list \<Rightarrow> nat \<Rightarrow> nat list \<Rightarrow> nat list \<Rightarrow> item list \<Rightarrow> error option \<times> item list" where
  "decode_loop solution n orders [] its = (None, its)"
| "decode_loop solution n orders (i # rest) its =
     (if i \<ge> length its then (Some IndexError, its)
      else case get_size (its ! i) (get_orientation (solution ! (n + i))) of
             Inl e \<Rightarrow> (Some e, its)
           | Inr sz \<Rightarrow>
               if orders ! i \<ge> length its then (Some IndexError, its)
               else decode_loop solution n orders rest (its [orders ! i := sz]))"

definition decode :: "placement \<Rightarrow> problem \<Rightarrow> real list \<Rightarrow> error option \<times> problem" where
  "decode pl pr solution =
     (if int (length solution) \<noteq> 2 * total_items pl then (Some ValueError, pr)
      else let n = nat (total_items pl);
               orders = argsort (take n solution);
               (err, its) = decode_loop solution n orders [0..<n] (P_items pr)
           in (err, pr \<lparr> P_items := its \<rparr>))"

subsection \<open>\<open>evaluate\<close>\<close>

text \<open>
  The loop \<open>for bin in self.bins\<close>. The list grows while it is iterated (Python's list
  iterator goes by index and sees appended bins), and the test
  \<open>if selected_bin is None\<close> stands inside the loop body. The selected bin is a reference
  to an element of \<open>self.bins\<close>: its index.
\<close>

function bins_loop :: "item \<Rightarrow> nat \<Rightarrow> placement \<Rightarrow> (nat \<times> ems) option \<Rightarrow> error option \<times> placement \<times> (nat \<times> ems) option" where
  "bins_loop item j pl selected =
     (if j \<ge> length (bins pl) then (None, pl, selected)
      else case choose_EMS (bins pl ! j) item of
             Inl e \<Rightarrow> (Some e, pl, selected)
           | Inr EMS \<Rightarrow>
               (case (case EMS of Some E \<Rightarrow> Some (j, E) | None \<Rightarrow> selected) of
                  None \<Rightarrow>
                    bins_loop item (j + 1)
                      (pl \<lparr> used_bins := used_bins pl + 1, bins := bins pl @ [Bin_init (bin_size pl)] \<rparr>)
                      (Some (length (bins pl), hd (EMSs (Bin_init (bin_size pl)))))
                | Some s \<Rightarrow> bins_loop item (j + 1) pl (Some s)))"
  by pat_completeness auto
termination
  by (relation "measure (\<lambda>(item, j, pl, selected). length (bins pl) - j + (if selected = None then 1 else 0))")
     (auto split: option.splits)

text \<open>One round of \<open>for item in self.items\<close>: the loop over the bins, then \<open>update\<close>.\<close>

definition place_item :: "placement \<Rightarrow> item \<Rightarrow> error option \<times> placement" where
  "place_item pl item =
     (case bins_loop item 0 pl None of
        (Some e, pl', selected) \<Rightarrow> (Some e, pl')
      | (None, pl', None) \<Rightarrow> (Some AttributeError, pl')
      | (None, pl', Some (k, E)) \<Rightarrow>
          (case update (bins pl' ! k) item E of
             Inl e \<Rightarrow> (Some e, pl')
           | Inr b \<Rightarrow> (None, pl' \<lparr> bins := (bins pl') [k := b] \<rparr>)))"

fun items_loop :: "item list \<Rightarrow> placement \<Rightarrow> error option \<times> placement" where
  "items_loop [] pl = (None, pl)"
| "items_loop (item # rest) pl =
     (case place_item pl item of
        (Some e, pl') \<Rightarrow> (Some e, pl')
      | (None, pl') \<Rightarrow> items_loop rest pl')"

definition volume :: "extent \<Rightarrow> int" where
  "volume sz = axis sz 0 * axis sz 1 * axis sz 2"

text \<open>
  \<open>evaluate\<close> returns the fitness or the error raised, with the engine and the Problem
  Record as the call leaves them.
\<close>

definition evaluate :: "placement \<Rightarrow> problem \<Rightarrow> real list \<Rightarrow> (error + pyfloat) \<times> placement \<times> problem" where
  "evaluate pl pr solution =
     (case decode pl pr solution of
        (Some e, pr1) \<Rightarrow> (Inl e, pl, pr1)
      | (None, pr1) \<Rightarrow>
          (case items_loop (P_items pr1) pl of
             (Some e, pl1) \<Rightarrow> (Inl e, pl1, pr1)
           | (None, pl1) \<Rightarrow>
               (let ls = map load (bins pl1); pl2 = pl1 \<lparr> loads := Some ls \<rparr> in
                case np_min ls of
                  Inl e \<Rightarrow> (Inl e, pl2, pr1)
                | Inr m \<Rightarrow>
                    (let least_load = true_divide m (volume (bin_size pl2));
                         fitness = int_plus (used_bins pl2) least_load
                     in (Inr fitness, pl2,
                         if float_less fitness (best_fitness pr1)
                         then pr1 \<lparr> P_used_bins := used_bins pl2, best_fitness := fitness, P_loads := Some ls \<rparr>
                         else pr1)))))"

section \<open>Notions of the specification\<close>

text \<open>
  Inscribed as the specification defines it: \<open>A\<close> is inscribed in \<open>B\<close> iff
  \<open>A.min >= B.min\<close> and \<open>A.max <= B.max\<close> componentwise. This is the specification's
  geometric containment, to be compared with \<open>inscribed\<close>, which is what the code computes.
\<close>

definition componentwise_inscribed :: "ems \<Rightarrow> ems \<Rightarrow> bool" where
  "componentwise_inscribed A B =
     (axis (fst B) 0 \<le> axis (fst A) 0 \<and> axis (fst B) 1 \<le> axis (fst A) 1 \<and>
      axis (fst B) 2 \<le> axis (fst A) 2 \<and>
      axis (snd A) 0 \<le> axis (snd B) 0 \<and> axis (snd A) 1 \<le> axis (snd B) 1 \<and>
      axis (snd A) 2 \<le> axis (snd B) 2)"

text \<open>Strictly positive extent on all three axes.\<close>

definition positive_extent :: "ems \<Rightarrow> bool" where
  "positive_extent E =
     (axis (fst E) 0 < axis (snd E) 0 \<and> axis (fst E) 1 < axis (snd E) 1 \<and>
      axis (fst E) 2 < axis (snd E) 2)"

text \<open>
  The pruning invariant of a bin's EMS list: no entry occurs twice, no entry is
  (componentwise) inscribed in another one, and every entry has positive extent.
\<close>

definition pruned :: "ems list \<Rightarrow> bool" where
  "pruned Es =
     (distinct Es \<and>
      (\<forall>A\<in>set Es. \<forall>B\<in>set Es. A \<noteq> B \<longrightarrow> \<not> componentwise_inscribed A B) \<and>
      (\<forall>E\<in>set Es. positive_extent E))"

section \<open>Evaluating the model on concrete inputs\<close>

text \<open>The defining equations that unfold a run of the model on explicit data.\<close>

lemmas eval_simps = Problem_init_def Placement_init_def decode_def argsort_def get_orientation_def
  evaluate_def place_item_def choose_EMS_def fit_def distance_def update_def new_EMSs_def
  degenerate_def inscribed_def Bin_init_def true_divide_def volume_def Let_def upt_conv_Cons

section \<open>The fit test and the choice of an EMS\<close>


text \<open>
  C6. For an item and an EMS, \<open>fit\<close> returns true iff on each of the three axes
  \<open>EMS.min[axis] + item[axis] <= EMS.max[axis]\<close>; in particular it returns false as soon
  as the item's extent exceeds the EMS's remaining span on one axis, whatever the other
  two axes do.
\<close>

theorem fit_iff_componentwise:
  "fit (Some it) E = Inr (\<forall>i\<in>{0, 1, 2}. axis (fst E) i + axis it i \<le> axis (snd E) i) \<and>
   ((\<exists>i\<in>{0, 1, 2}. axis it i > axis (snd E) i - axis (fst E) i) \<longrightarrow> fit (Some it) E = Inr False)"
  by (auto simp add: fit_def)

theorem fit_iff_componentwise_witness:
  "(\<exists>i\<in>{0, 1, 2}. axis (11, 5, 5) i > axis (10, 10, 10) i - axis (0, 0, 0) i) \<and>
   fit (Some (11, 5, 5)) ((0, 0, 0), (10, 10, 10)) = Inr False \<and>
   fit (Some (10, 10, 5)) ((0, 0, 5), (10, 10, 10)) = Inr True"
  using fit_iff_componentwise [of "(11, 5, 5)" "((0, 0, 0), (10, 10, 10))"]
        fit_iff_componentwise [of "(10, 10, 5)" "((0, 0, 5), (10, 10, 10))"]
  by simp


lemma distance_explicit:
  "distance (bx, by, bz) (ix, iy, iz) ((x, y, z), M) =
     (bx - (x + ix)) ^ 2 + (by - (y + iy)) ^ 2 + (bz - (z + iz)) ^ 2"
  by (simp add: distance_def)




section \<open>Updating a bin\<close>

lemma componentwise_inscribed_refl: "componentwise_inscribed A A"
  by (simp add: componentwise_inscribed_def)

lemma componentwise_inscribed_trans:
  "componentwise_inscribed A B \<Longrightarrow> componentwise_inscribed B C \<Longrightarrow> componentwise_inscribed A C"
  unfolding componentwise_inscribed_def by force

lemma componentwise_imp_inscribed: "componentwise_inscribed A B \<Longrightarrow> inscribed A B"
proof -
  assume h: "componentwise_inscribed A B"
  obtain a1 a2 a3 a4 a5 a6 where A: "A = ((a1, a2, a3), (a4, a5, a6))" by (metis prod.exhaust)
  obtain b1 b2 b3 b4 b5 b6 where B: "B = ((b1, b2, b3), (b4, b5, b6))" by (metis prod.exhaust)
  show ?thesis using h unfolding A B by (auto simp add: componentwise_inscribed_def inscribed_def)
qed

lemma positive_extent_iff: "positive_extent E \<longleftrightarrow> \<not> degenerate E"
  by (auto simp add: positive_extent_def degenerate_def)

lemma pruned_remove1: "pruned Es \<Longrightarrow> pruned (remove1 s Es)"
  unfolding pruned_def by (auto dest: notin_set_remove1)

lemma pruned_add_candidate:
  assumes "pruned Es" and "\<forall>E\<in>set Es. \<not> componentwise_inscribed E c"
  shows "pruned (if \<not> degenerate c \<and> \<not> list_ex (inscribed c) Es then Es @ [c] else Es)"
proof (cases "\<not> degenerate c \<and> \<not> list_ex (inscribed c) Es")
  case False
  then show ?thesis using assms(1) by auto
next
  case True
  then have notin: "\<forall>E\<in>set Es. \<not> inscribed c E" by (simp add: list_ex_iff)
  then have cw: "\<forall>E\<in>set Es. \<not> componentwise_inscribed c E"
    using componentwise_imp_inscribed by blast
  have "c \<notin> set Es"
    using cw componentwise_inscribed_refl by blast
  moreover have "positive_extent c" using True by (simp add: positive_extent_iff)
  ultimately have "pruned (Es @ [c])"
    using assms cw unfolding pruned_def by auto
  then show ?thesis using True by simp
qed

lemma set_add_candidate:
  "set (if \<not> degenerate c \<and> \<not> list_ex (inscribed c) Es then Es @ [c] else Es) \<subseteq> insert c (set Es)"
  by auto

lemma pruned_Bin_init: "0 < x \<Longrightarrow> 0 < y \<Longrightarrow> 0 < z \<Longrightarrow> pruned (EMSs (Bin_init (x, y, z)))"
  by (simp add: pruned_def Bin_init_def positive_extent_def)

text \<open>
  C4, as the code has it. When the bin's EMS list is pruned before the call (as the single
  EMS of a fresh bin of positive size is) and the item's three extents are strictly
  positive, then after a call of \<open>update\<close> that returns, the bin's EMS list is pruned
  again: no retained EMS is componentwise inscribed in another retained EMS, and every
  retained EMS has strictly positive extent on all three axes.
\<close>

theorem update_keeps_pruned:
  assumes inv: "pruned (EMSs b)"
    and pos: "0 < ix" "0 < iy" "0 < iz"
    and upd: "update b (Some (ix, iy, iz)) selected_EMS = Inr b'"
  shows "pruned (EMSs b')"
proof -
  obtain x1 y1 z1 x3 y3 z3 where sel: "selected_EMS = ((x1, y1, z1), (x3, y3, z3))"
    by (metis prod.exhaust)
  define Es0 where "Es0 = remove1 selected_EMS (EMSs b)"
  define c1 :: ems where "c1 = ((x1 + ix, y1, z1), (x3, y3, z3))"
  define c2 :: ems where "c2 = ((x1, y1 + iy, z1), (x3, y3, z3))"
  define c3 :: ems where "c3 = ((x1, y1, z1 + iz), (x3, y3, z3))"
  define Es1 where "Es1 = (if \<not> degenerate c1 \<and> \<not> list_ex (inscribed c1) Es0 then Es0 @ [c1] else Es0)"
  define Es2 where "Es2 = (if \<not> degenerate c2 \<and> \<not> list_ex (inscribed c2) Es1 then Es1 @ [c2] else Es1)"
  define Es3 where "Es3 = (if \<not> degenerate c3 \<and> \<not> list_ex (inscribed c3) Es2 then Es2 @ [c3] else Es2)"
  have mem: "selected_EMS \<in> set (EMSs b)"
    using upd by (simp add: update_def split: if_splits)
  have res: "EMSs b' = Es3"
    using upd mem unfolding update_def Es3_def Es2_def Es1_def Es0_def c1_def c2_def c3_def sel
    by (auto simp add: new_EMSs_def)
  have p0: "pruned Es0" unfolding Es0_def using inv by (rule pruned_remove1)
  have old: "\<forall>E\<in>set Es0. \<not> componentwise_inscribed E selected_EMS"
  proof
    fix E assume "E \<in> set Es0"
    then have "E \<in> set (EMSs b)" "E \<noteq> selected_EMS"
      using inv unfolding Es0_def pruned_def by (auto dest: notin_set_remove1)
    then show "\<not> componentwise_inscribed E selected_EMS"
      using inv mem unfolding pruned_def by blast
  qed
  have in1: "componentwise_inscribed c1 selected_EMS"
    and in2: "componentwise_inscribed c2 selected_EMS"
    and in3: "componentwise_inscribed c3 selected_EMS"
    using pos unfolding c1_def c2_def c3_def sel componentwise_inscribed_def by auto
  have n12: "\<not> componentwise_inscribed c1 c2"
    and n13: "\<not> componentwise_inscribed c1 c3"
    and n23: "\<not> componentwise_inscribed c2 c3"
    using pos unfolding c1_def c2_def c3_def componentwise_inscribed_def by auto
  have o1: "\<forall>E\<in>set Es0. \<not> componentwise_inscribed E c1"
    using old in1 componentwise_inscribed_trans by blast
  have o2: "\<forall>E\<in>set Es0. \<not> componentwise_inscribed E c2"
    using old in2 componentwise_inscribed_trans by blast
  have o3: "\<forall>E\<in>set Es0. \<not> componentwise_inscribed E c3"
    using old in3 componentwise_inscribed_trans by blast
  have p1: "pruned Es1" unfolding Es1_def using p0 o1 by (rule pruned_add_candidate)
  have s1: "set Es1 \<subseteq> insert c1 (set Es0)" unfolding Es1_def by (rule set_add_candidate)
  have "\<forall>E\<in>set Es1. \<not> componentwise_inscribed E c2" using s1 o2 n12 by blast
  with p1 have p2: "pruned Es2" unfolding Es2_def by (rule pruned_add_candidate)
  have s2: "set Es2 \<subseteq> insert c2 (set Es1)" unfolding Es2_def by (rule set_add_candidate)
  have "\<forall>E\<in>set Es2. \<not> componentwise_inscribed E c3" using s1 s2 o3 n13 n23 by blast
  with p2 have "pruned Es3" unfolding Es3_def by (rule pruned_add_candidate)
  then show ?thesis using res by simp
qed

theorem update_keeps_pruned_witness:
  "pruned (EMSs (Bin_init (10, 10, 10))) \<and> (0::int) < 5 \<and>
   update (Bin_init (10, 10, 10)) (Some (5, 5, 5)) ((0, 0, 0), (10, 10, 10)) =
     Inr \<lparr> size_of = (10, 10, 10),
           EMSs = [((5, 0, 0), (10, 10, 10)), ((0, 5, 0), (10, 10, 10)), ((0, 0, 5), (10, 10, 10))],
           load = 125 \<rparr> \<and>
   pruned [((5, 0, 0), (10, 10, 10)), ((0, 5, 0), (10, 10, 10)), ((0, 0, 5), (10, 10, 10))]"
proof -
  have inv: "pruned (EMSs (Bin_init (10, 10, 10)))"
    by (simp add: pruned_def Bin_init_def positive_extent_def)
  have upd: "update (Bin_init (10, 10, 10)) (Some (5, 5, 5)) ((0, 0, 0), (10, 10, 10)) =
     Inr \<lparr> size_of = (10, 10, 10),
           EMSs = [((5, 0, 0), (10, 10, 10)), ((0, 5, 0), (10, 10, 10)), ((0, 0, 5), (10, 10, 10))],
           load = 125 \<rparr>"
    by (simp add: update_def Bin_init_def new_EMSs_def degenerate_def inscribed_def)
  show ?thesis
    using inv upd update_keeps_pruned [OF inv _ _ _ upd] by simp
qed

text \<open>
  Without the positivity of the item the invariant is lost: an item with a zero extent on
  the Y axis, placed in a fresh bin, makes the second candidate the removed EMS itself,
  and the first candidate, appended just before, lies inside it.
\<close>

theorem update_pruned_counterexample:
  "pruned (EMSs (Bin_init (2, 2, 2))) \<and>
   update (Bin_init (2, 2, 2)) (Some (1, 0, 1)) ((0, 0, 0), (2, 2, 2)) =
     Inr \<lparr> size_of = (2, 2, 2), EMSs = [((1, 0, 0), (2, 2, 2)), ((0, 0, 0), (2, 2, 2))], load = 0 \<rparr> \<and>
   componentwise_inscribed ((1, 0, 0), (2, 2, 2)) ((0, 0, 0), (2, 2, 2)) \<and>
   \<not> pruned [((1, 0, 0), (2, 2, 2)), ((0, 0, 0), (2, 2, 2))]"
  by (simp add: pruned_def Bin_init_def positive_extent_def update_def new_EMSs_def degenerate_def
        inscribed_def componentwise_inscribed_def)

text \<open>
  C8. \<open>update\<close> removes the chosen EMS, builds the three candidates and adds the item's
  volume to the load, but it does not discard a candidate iff it is degenerate or
  (componentwise) inscribed in an EMS of the bin: \<open>inscribed\<close> compares the corner tuples
  lexicographically. In a bin of size (10, 10, 10) holding one item (5, 5, 5), \<open>choose\<close>
  selects the EMS at (5, 0, 0) for an item (2, 2, 2); the candidate [(7, 0, 0), (10, 10, 10)]
  is neither degenerate nor inside either remaining EMS, and \<open>update\<close> discards it (and
  the other two candidates as well).
\<close>

theorem update_discards_free_candidates:
  "update (Bin_init (10, 10, 10)) (Some (5, 5, 5)) ((0, 0, 0), (10, 10, 10))
     = Inr \<lparr> size_of = (10, 10, 10),
             EMSs = [((5, 0, 0), (10, 10, 10)), ((0, 5, 0), (10, 10, 10)), ((0, 0, 5), (10, 10, 10))],
             load = 125 \<rparr> \<and>
   choose_EMS \<lparr> size_of = (10, 10, 10),
                EMSs = [((5, 0, 0), (10, 10, 10)), ((0, 5, 0), (10, 10, 10)), ((0, 0, 5), (10, 10, 10))],
                load = 125 \<rparr> (Some (2, 2, 2))
     = Inr (Some ((5, 0, 0), (10, 10, 10))) \<and>
   update \<lparr> size_of = (10, 10, 10),
            EMSs = [((5, 0, 0), (10, 10, 10)), ((0, 5, 0), (10, 10, 10)), ((0, 0, 5), (10, 10, 10))],
            load = 125 \<rparr> (Some (2, 2, 2)) ((5, 0, 0), (10, 10, 10))
     = Inr \<lparr> size_of = (10, 10, 10),
             EMSs = [((0, 5, 0), (10, 10, 10)), ((0, 0, 5), (10, 10, 10))],
             load = 133 \<rparr> \<and>
   \<not> degenerate ((7, 0, 0), (10, 10, 10)) \<and>
   \<not> componentwise_inscribed ((7, 0, 0), (10, 10, 10)) ((0, 5, 0), (10, 10, 10)) \<and>
   \<not> componentwise_inscribed ((7, 0, 0), (10, 10, 10)) ((0, 0, 5), (10, 10, 10)) \<and>
   inscribed ((7, 0, 0), (10, 10, 10)) ((0, 5, 0), (10, 10, 10))"
  by (simp add: eval_simps componentwise_inscribed_def)

section \<open>Decoding a solution\<close>

lemma get_size_Some:
  "\<exists>sz. get_size (Some it) orientation = Inr sz \<and> (sz = None \<longleftrightarrow> orientation \<notin> {1..6})"
  by (cases it) auto

lemma argsort_length: "length (argsort xs) = length xs"
  by (simp add: argsort_def)

lemma argsort_set: "set (argsort xs) = {0..<length xs}"
  by (simp add: argsort_def)

lemma argsort_distinct: "distinct (argsort xs)"
  by (simp add: argsort_def)

lemma argsort_is_argsort: "is_argsort xs (argsort xs)"
  by (simp add: is_argsort_def argsort_def)

text \<open>On pairwise distinct keys there is one such order: the sort kind is immaterial.\<close>

lemma is_argsort_unique:
  assumes "distinct xs" and "is_argsort xs orders"
  shows "orders = argsort xs"
proof -
  define f where "f = (\<lambda>i. xs ! i)"
  have inj: "inj_on f {0..<length xs}"
    using assms(1) unfolding f_def inj_on_def by (simp add: nth_eq_iff_index_eq)
  have so: "set orders = {0..<length xs}" and d: "distinct orders" and st: "sorted (map f orders)"
    using assms(2) by (simp_all add: is_argsort_def f_def)
  have sa: "set (argsort xs) = {0..<length xs}" and da: "distinct (argsort xs)"
    and sta: "sorted (map f (argsort xs))"
    using argsort_is_argsort [of xs] by (simp_all add: is_argsort_def f_def)
  have "distinct (map f orders)" using d inj so by (simp add: distinct_map)
  moreover have "distinct (map f (argsort xs))" using da inj sa by (simp add: distinct_map)
  moreover have "set (map f orders) = set (map f (argsort xs))" using so sa by simp
  ultimately have "map f orders = map f (argsort xs)"
    using st sta by (simp add: sorted_distinct_set_unique)
  moreover have "inj_on f (set orders \<union> set (argsort xs))" using inj so sa by simp
  ultimately show ?thesis by (simp add: inj_on_map_eq_map)
qed

text \<open>
  C2. \<open>decode\<close> does not produce a permutation of the oriented items: it reads
  \<open>self.items[i]\<close> from the list it is writing \<open>self.items[orders[i]]\<close> into. With two
  items, priorities in descending order and identity orientations, the item (4, 5, 6) is
  overwritten before it is read: the list ends with two copies of (1, 2, 3). (The packing
  order itself is a bijection: see \<open>argsort_set\<close> and \<open>argsort_distinct\<close>.)
\<close>

theorem decode_drops_item:
  "argsort [1/2, 1/4] = [1, 0] \<and>
   get_orientation (1/8) = 1 \<and>
   decode (Placement_init (Problem_init (10, 10, 10) 1 2 126 [(1, 2, 3), (4, 5, 6)]))
     (Problem_init (10, 10, 10) 1 2 126 [(1, 2, 3), (4, 5, 6)]) [1/2, 1/4, 1/8, 1/8]
   = (None, \<lparr> P_bin_size = (10, 10, 10), P_n_bins = 1, P_n_items = 2, P_total_volume = 126,
              P_items = [Some (1, 2, 3), Some (1, 2, 3)], P_total_items = 2, P_used_bins = 2,
              P_loads = None, best_fitness = PInf \<rparr>)"
  by (simp add: eval_simps)

text \<open>
  C10. \<open>get_size\<close> returns \<open>None\<close> for every orientation outside 1..6
  (\<open>get_size_Some\<close>) and \<open>get_orientation 0 = 0\<close>, but a \<open>decode\<close> call on a solution
  of valid length with an orientation gene equal to 0 does not always complete. With the
  items (1, 2, 3), (4, 5, 6) and the solution [1/2, 1/4, 0, 1/8] the order is [1, 0]: step 0
  writes the \<open>None\<close> for item 0 to position 1, step 1 reads position 1 and \<open>get_size\<close>
  raises TypeError. With the priorities swapped (order [0, 1]) the same genes are decoded
  without an error and position 0 holds \<open>None\<close>.
\<close>

theorem decode_zero_gene_raises:
  "int (length [1/2, 1/4, 0, 1/8 :: real]) =
      2 * total_items (Placement_init (Problem_init (10, 10, 10) 1 2 126 [(1, 2, 3), (4, 5, 6)])) \<and>
   argsort [1/2, 1/4] = [1, 0] \<and>
   get_orientation 0 = 0 \<and>
   get_size (Some (1, 2, 3)) 0 = Inr None \<and>
   decode (Placement_init (Problem_init (10, 10, 10) 1 2 126 [(1, 2, 3), (4, 5, 6)]))
     (Problem_init (10, 10, 10) 1 2 126 [(1, 2, 3), (4, 5, 6)]) [1/2, 1/4, 0, 1/8]
   = (Some TypeError, \<lparr> P_bin_size = (10, 10, 10), P_n_bins = 1, P_n_items = 2, P_total_volume = 126,
              P_items = [Some (1, 2, 3), None], P_total_items = 2, P_used_bins = 2,
              P_loads = None, best_fitness = PInf \<rparr>) \<and>
   decode (Placement_init (Problem_init (10, 10, 10) 1 2 126 [(1, 2, 3), (4, 5, 6)]))
     (Problem_init (10, 10, 10) 1 2 126 [(1, 2, 3), (4, 5, 6)]) [1/4, 1/2, 0, 1/8]
   = (None, \<lparr> P_bin_size = (10, 10, 10), P_n_bins = 1, P_n_items = 2, P_total_volume = 126,
              P_items = [None, Some (4, 5, 6)], P_total_items = 2, P_used_bins = 2,
              P_loads = None, best_fitness = PInf \<rparr>)"
  by (simp add: eval_simps)

section \<open>\<open>evaluate\<close>\<close>

text \<open>
  C5, as the code has it. \<open>evaluate\<close> fails with ValueError whenever
  \<open>len(solution) != 2 * total_items\<close>, and that failure changes nothing: the engine (its
  bins, loads and \<open>used_bins\<close>) and the Problem Record are as before the call.
\<close>

theorem evaluate_rejects_length:
  "int (length solution) \<noteq> 2 * total_items pl \<Longrightarrow> evaluate pl pr solution = (Inl ValueError, pl, pr)"
  by (simp add: evaluate_def decode_def)

theorem evaluate_rejects_length_witness:
  "int (length [1/2, 1/4, 1/8 :: real]) \<noteq> 2 * total_items (Placement_init (Problem_init (10, 10, 10) 1 2 126 [(1, 2, 3), (4, 5, 6)])) \<and>
   evaluate (Placement_init (Problem_init (10, 10, 10) 1 2 126 [(1, 2, 3), (4, 5, 6)]))
     (Problem_init (10, 10, 10) 1 2 126 [(1, 2, 3), (4, 5, 6)]) [1/2, 1/4, 1/8]
   = (Inl ValueError, Placement_init (Problem_init (10, 10, 10) 1 2 126 [(1, 2, 3), (4, 5, 6)]),
      Problem_init (10, 10, 10) 1 2 126 [(1, 2, 3), (4, 5, 6)])"
proof -
  have h: "int (length [1/2, 1/4, 1/8 :: real]) \<noteq> 2 * total_items (Placement_init (Problem_init (10, 10, 10) 1 2 126 [(1, 2, 3), (4, 5, 6)]))"
    by (simp add: Placement_init_def Problem_init_def)
  show ?thesis using h evaluate_rejects_length [OF h] by simp
qed

text \<open>
  A failure after the length test does leave partial results behind. With a solution of
  valid length whose second orientation gene is 0, \<open>decode\<close> writes \<open>None\<close> into the
  item list of the Problem Record, the first item is packed into the first bin, and the
  call then raises TypeError on the \<open>None\<close> item.
\<close>

theorem evaluate_failure_counterexample:
  "int (length [1/4, 1/2, 1/8, 0 :: real]) = 2 * total_items (Placement_init (Problem_init (10, 10, 10) 1 2 126 [(1, 2, 3), (4, 5, 6)])) \<and>
   evaluate (Placement_init (Problem_init (10, 10, 10) 1 2 126 [(1, 2, 3), (4, 5, 6)]))
      (Problem_init (10, 10, 10) 1 2 126 [(1, 2, 3), (4, 5, 6)]) [1/4, 1/2, 1/8, 0]
     = (Inl TypeError,
        \<lparr> bin_size = (10, 10, 10), n_bins = 1, n_items = 2, total_volume = 126, used_bins = 1, total_items = 2,
          bins = [\<lparr> size_of = (10, 10, 10),
                    EMSs = [((1, 0, 0), (10, 10, 10)), ((0, 2, 0), (10, 10, 10)), ((0, 0, 3), (10, 10, 10))],
                    load = 6 \<rparr>],
          loads = None \<rparr>,
        \<lparr> P_bin_size = (10, 10, 10), P_n_bins = 1, P_n_items = 2, P_total_volume = 126,
          P_items = [Some (1, 2, 3), None], P_total_items = 2, P_used_bins = 2,
          P_loads = None, best_fitness = PInf \<rparr>) \<and>
   snd (evaluate (Placement_init (Problem_init (10, 10, 10) 1 2 126 [(1, 2, 3), (4, 5, 6)]))
      (Problem_init (10, 10, 10) 1 2 126 [(1, 2, 3), (4, 5, 6)]) [1/4, 1/2, 1/8, 0])
     \<noteq> (Placement_init (Problem_init (10, 10, 10) 1 2 126 [(1, 2, 3), (4, 5, 6)]),
         Problem_init (10, 10, 10) 1 2 126 [(1, 2, 3), (4, 5, 6)]) \<and>
   bins (Placement_init (Problem_init (10, 10, 10) 1 2 126 [(1, 2, 3), (4, 5, 6)])) = [Bin_init (10, 10, 10)] \<and>
   load (Bin_init (10, 10, 10)) = 0 \<and>
   P_items (Problem_init (10, 10, 10) 1 2 126 [(1, 2, 3), (4, 5, 6)]) = [Some (1, 2, 3), Some (4, 5, 6)]"
  by (simp add: eval_simps)

text \<open>
  Once a bin is selected, the loop over the bins changes nothing any more; so one item
  opens at most one bin, and \<open>used_bins\<close> never decreases.
\<close>

lemma bins_loop_selected:
  "selected \<noteq> None \<Longrightarrow> bins_loop item j pl selected = (e, pl', selected') \<Longrightarrow> pl' = pl"
proof (induction item j pl selected rule: bins_loop.induct)
  case (1 item j pl selected)
  show ?case
  proof (cases "j \<ge> length (bins pl)")
    case True
    then show ?thesis using "1.prems" by (simp add: bins_loop.simps [of item j pl selected])
  next
    case False
    show ?thesis
    proof (cases "choose_EMS (bins pl ! j) item")
      case (Inl err)
      then show ?thesis using False "1.prems" by (simp add: bins_loop.simps [of item j pl selected])
    next
      case (Inr EMS)
      obtain s where s: "(case EMS of Some E \<Rightarrow> Some (j, E) | None \<Rightarrow> selected) = Some s"
        using "1.prems"(1) by (cases EMS) auto
      have "bins_loop item (j + 1) pl (Some s) = (e, pl', selected')"
        using False Inr s "1.prems"(2) by (simp add: bins_loop.simps [of item j pl selected])
      then show ?thesis using "1.IH"(2) [OF _ Inr s] False by simp
    qed
  qed
qed

lemma bins_loop_used_bins:
  "bins_loop item j pl selected = (e, pl', selected') \<Longrightarrow>
     used_bins pl \<le> used_bins pl' \<and> used_bins pl' \<le> used_bins pl + 1"
proof (cases "j \<ge> length (bins pl)")
  case True
  assume "bins_loop item j pl selected = (e, pl', selected')"
  then show ?thesis using True by (simp add: bins_loop.simps [of item j pl selected])
next
  case False
  assume r: "bins_loop item j pl selected = (e, pl', selected')"
  show ?thesis
  proof (cases "choose_EMS (bins pl ! j) item")
    case (Inl err)
    then show ?thesis using False r by (simp add: bins_loop.simps [of item j pl selected])
  next
    case (Inr EMS)
    show ?thesis
    proof (cases "case EMS of Some E \<Rightarrow> Some (j, E) | None \<Rightarrow> selected")
      case None
      then have "bins_loop item (j + 1)
          (pl \<lparr> used_bins := used_bins pl + 1, bins := bins pl @ [Bin_init (bin_size pl)] \<rparr>)
          (Some (length (bins pl), hd (EMSs (Bin_init (bin_size pl))))) = (e, pl', selected')"
        using False Inr r by (simp add: bins_loop.simps [of item j pl selected])
      then have "pl' = pl \<lparr> used_bins := used_bins pl + 1, bins := bins pl @ [Bin_init (bin_size pl)] \<rparr>"
        using bins_loop_selected by blast
      then show ?thesis by simp
    next
      case (Some s)
      then have "bins_loop item (j + 1) pl (Some s) = (e, pl', selected')"
        using False Inr r by (simp add: bins_loop.simps [of item j pl selected])
      then have "pl' = pl" using bins_loop_selected by blast
      then show ?thesis by simp
    qed
  qed
qed

lemma place_item_used_bins:
  "place_item pl item = (e, pl') \<Longrightarrow> used_bins pl \<le> used_bins pl'"
proof -
  assume r: "place_item pl item = (e, pl')"
  obtain e1 pl1 sel where b: "bins_loop item 0 pl None = (e1, pl1, sel)"
    by (metis prod.exhaust)
  have "used_bins pl \<le> used_bins pl1" using bins_loop_used_bins [OF b] by simp
  moreover have "used_bins pl' = used_bins pl1"
    using r b by (auto simp add: place_item_def split: option.splits sum.splits)
  ultimately show ?thesis by simp
qed

lemma items_loop_used_bins:
  "items_loop its pl = (e, pl') \<Longrightarrow> used_bins pl \<le> used_bins pl'"
proof (induction its arbitrary: pl)
  case Nil
  then show ?case by simp
next
  case (Cons item rest)
  obtain e1 pl1 where p: "place_item pl item = (e1, pl1)" by (metis prod.exhaust)
  have le: "used_bins pl \<le> used_bins pl1" using p by (rule place_item_used_bins)
  show ?case
  proof (cases e1)
    case None
    then have "items_loop rest pl1 = (e, pl')" using Cons.prems p by simp
    then have "used_bins pl1 \<le> used_bins pl'" by (rule Cons.IH)
    then show ?thesis using le by simp
  next
    case (Some err)
    then have "pl' = pl1" using Cons.prems p by simp
    then show ?thesis using le by simp
  qed
qed

text \<open>
  What the loop does instead: placing an item opens a bin exactly when the first bin
  offers no fit.
\<close>

lemma place_item_opens_iff_first_bin_has_no_fit:
  assumes "bins pl \<noteq> []" and "choose_EMS (bins pl ! 0) item = Inr EMS"
    and "place_item pl item = (e, pl')"
  shows "used_bins pl' = (if EMS = None then used_bins pl + 1 else used_bins pl)"
proof -
  obtain e1 pl1 sel where b: "bins_loop item 0 pl None = (e1, pl1, sel)"
    by (metis prod.exhaust)
  have u: "used_bins pl' = used_bins pl1"
    using assms(3) b by (auto simp add: place_item_def split: option.splits sum.splits)
  show ?thesis
  proof (cases EMS)
    case None
    then have "bins_loop item (0 + 1)
          (pl \<lparr> used_bins := used_bins pl + 1, bins := bins pl @ [Bin_init (bin_size pl)] \<rparr>)
          (Some (length (bins pl), hd (EMSs (Bin_init (bin_size pl))))) = (e1, pl1, sel)"
      using assms(1,2) b by (simp add: bins_loop.simps [of item 0 pl None])
    then have "pl1 = pl \<lparr> used_bins := used_bins pl + 1, bins := bins pl @ [Bin_init (bin_size pl)] \<rparr>"
      using bins_loop_selected by blast
    then show ?thesis using u None by simp
  next
    case (Some E)
    then have "bins_loop item (0 + 1) pl (Some (0, E)) = (e1, pl1, sel)"
      using assms(1,2) b by (simp add: bins_loop.simps [of item 0 pl None])
    then have "pl1 = pl" using bins_loop_selected by blast
    then show ?thesis using u Some by simp
  qed
qed

text \<open>
  C1. Within one call \<open>used_bins\<close> only grows, but a fresh bin is opened whenever the
  first bin offers no fit, whatever the later open bins offer: the test
  \<open>if selected_bin is None\<close> stands inside the loop over the bins. With bin size
  (2, 1, 1) and the items (2, 1, 1), (1, 1, 1), (1, 1, 1): after two items there are two
  bins and the second one has room for the third item, yet placing it appends a third bin
  and increments \<open>used_bins\<close>.
\<close>

theorem evaluate_opens_bin_despite_fit:
  "items_loop [Some (2, 1, 1), Some (1, 1, 1)] (Placement_init (Problem_init (2, 1, 1) 1 3 4 [(2, 1, 1), (1, 1, 1), (1, 1, 1)]))
     = (None, \<lparr> bin_size = (2, 1, 1), n_bins = 1, n_items = 3, total_volume = 4, used_bins = 2, total_items = 3,
                bins = [\<lparr> size_of = (2, 1, 1), EMSs = [], load = 2 \<rparr>,
                        \<lparr> size_of = (2, 1, 1), EMSs = [((1, 0, 0), (2, 1, 1))], load = 1 \<rparr>],
                loads = None \<rparr>) \<and>
   choose_EMS \<lparr> size_of = (2, 1, 1), EMSs = [((1, 0, 0), (2, 1, 1))], load = 1 \<rparr> (Some (1, 1, 1))
     = Inr (Some ((1, 0, 0), (2, 1, 1))) \<and>
   place_item \<lparr> bin_size = (2, 1, 1), n_bins = 1, n_items = 3, total_volume = 4, used_bins = 2, total_items = 3,
                bins = [\<lparr> size_of = (2, 1, 1), EMSs = [], load = 2 \<rparr>,
                        \<lparr> size_of = (2, 1, 1), EMSs = [((1, 0, 0), (2, 1, 1))], load = 1 \<rparr>],
                loads = None \<rparr> (Some (1, 1, 1))
     = (None, \<lparr> bin_size = (2, 1, 1), n_bins = 1, n_items = 3, total_volume = 4, used_bins = 3, total_items = 3,
                bins = [\<lparr> size_of = (2, 1, 1), EMSs = [], load = 2 \<rparr>,
                        \<lparr> size_of = (2, 1, 1), EMSs = [((1, 0, 0), (2, 1, 1))], load = 1 \<rparr>,
                        \<lparr> size_of = (2, 1, 1), EMSs = [((1, 0, 0), (2, 1, 1))], load = 1 \<rparr>],
                loads = None \<rparr>) \<and>
   fst (evaluate (Placement_init (Problem_init (2, 1, 1) 1 3 4 [(2, 1, 1), (1, 1, 1), (1, 1, 1)]))
          (Problem_init (2, 1, 1) 1 3 4 [(2, 1, 1), (1, 1, 1), (1, 1, 1)]) [1/8, 1/4, 1/2, 1/8, 1/8, 1/8])
     = Inr (Fin (7/2))"
  by (simp add: eval_simps)

text \<open>
  C3. Two fresh engines bound to the same Problem Record do not give the same result on
  the same solution vector: the first \<open>evaluate\<close> has rewritten the record's item list,
  which the second engine reads. Bin size (4, 1, 1), one item (2, 1, 1), orientation gene
  1/2 (orientation 3, which swaps X and Y): the first run packs (1, 2, 1) with loads
  [0, 2] and fitness 2, the second run packs (2, 1, 1) with loads [2] and fitness 3/2.
\<close>

theorem evaluate_twice_differs:
  "Placement_init \<lparr> P_bin_size = (4, 1, 1), P_n_bins = 1, P_n_items = 1, P_total_volume = 2,
          P_items = [Some (1, 2, 1)], P_total_items = 1, P_used_bins = 2,
          P_loads = Some [0, 2], best_fitness = Fin 2 \<rparr>
     = Placement_init (Problem_init (4, 1, 1) 1 1 2 [(2, 1, 1)]) \<and>
   evaluate (Placement_init (Problem_init (4, 1, 1) 1 1 2 [(2, 1, 1)])) (Problem_init (4, 1, 1) 1 1 2 [(2, 1, 1)]) [1/2, 1/2]
     = (Inr (Fin 2),
        \<lparr> bin_size = (4, 1, 1), n_bins = 1, n_items = 1, total_volume = 2, used_bins = 2, total_items = 1,
          bins = [\<lparr> size_of = (4, 1, 1), EMSs = [((0, 0, 0), (4, 1, 1))], load = 0 \<rparr>,
                  \<lparr> size_of = (4, 1, 1), EMSs = [((1, 0, 0), (4, 1, 1))], load = 2 \<rparr>],
          loads = Some [0, 2] \<rparr>,
        \<lparr> P_bin_size = (4, 1, 1), P_n_bins = 1, P_n_items = 1, P_total_volume = 2,
          P_items = [Some (1, 2, 1)], P_total_items = 1, P_used_bins = 2,
          P_loads = Some [0, 2], best_fitness = Fin 2 \<rparr>) \<and>
   evaluate (Placement_init (Problem_init (4, 1, 1) 1 1 2 [(2, 1, 1)]))
        \<lparr> P_bin_size = (4, 1, 1), P_n_bins = 1, P_n_items = 1, P_total_volume = 2,
          P_items = [Some (1, 2, 1)], P_total_items = 1, P_used_bins = 2,
          P_loads = Some [0, 2], best_fitness = Fin 2 \<rparr> [1/2, 1/2]
     = (Inr (Fin (3/2)),
        \<lparr> bin_size = (4, 1, 1), n_bins = 1, n_items = 1, total_volume = 2, used_bins = 1, total_items = 1,
          bins = [\<lparr> size_of = (4, 1, 1), EMSs = [((2, 0, 0), (4, 1, 1))], load = 2 \<rparr>],
          loads = Some [2] \<rparr>,
        \<lparr> P_bin_size = (4, 1, 1), P_n_bins = 1, P_n_items = 1, P_total_volume = 2,
          P_items = [Some (2, 1, 1)], P_total_items = 1, P_used_bins = 1,
          P_loads = Some [2], best_fitness = Fin (3/2) \<rparr>)"
  by (simp add: eval_simps)

lemma np_min_Min: "np_min xs = Inr m \<Longrightarrow> xs \<noteq> [] \<and> m = Min (set xs)"
proof (cases xs)
  case Nil
  assume "np_min xs = Inr m"
  then show ?thesis using Nil by simp
next
  case (Cons a list)
  assume "np_min xs = Inr m"
  then have "m = fold min list a" using Cons by simp
  then show ?thesis using Cons Min.set_eq_fold [of a list] by simp
qed

text \<open>
  In the two-item scenario below both items and both orientations are the same, so the
  decoded list does not depend on which of the two orders \<open>np.argsort\<close> returns.
\<close>

lemma scenario_order_immaterial:
  assumes "get_orientation g0 = 1" and "get_orientation g1 = 1"
    and "orders = [0, 1] \<or> orders = [1, 0]"
  shows "decode_loop [p0, p1, g0, g1] 2 orders [0, 1] [Some (10, 10, 5), Some (10, 10, 5)]
           = (None, [Some (10, 10, 5), Some (10, 10, 5)])"
  using assms by auto

text \<open>
  C9. When \<open>evaluate\<close> returns a fitness, \<open>loads\<close> is the list of the bins' loads and the
  fitness is \<open>used_bins + min(loads) / (binX * binY * binZ)\<close>. For bin size (10, 10, 10)
  and two items (10, 10, 5), with orientation genes that select the identity orientation
  and any two priority genes, \<open>evaluate\<close> yields \<open>used_bins = 1\<close>, \<open>loads = [1000]\<close> and
  fitness 2.
\<close>

theorem evaluate_fitness:
  "(evaluate pl pr solution = (Inr f, pl', pr') \<longrightarrow>
      loads pl' = Some (map load (bins pl')) \<and> bins pl' \<noteq> [] \<and>
      f = int_plus (used_bins pl') (true_divide (Min (set (map load (bins pl')))) (volume (bin_size pl'))) \<and>
      (volume (bin_size pl') \<noteq> 0 \<longrightarrow>
         f = Fin (real_of_int (used_bins pl') +
                  real_of_int (Min (set (map load (bins pl')))) / real_of_int (volume (bin_size pl'))))) \<and>
   (get_orientation g0 = 1 \<and> get_orientation g1 = 1 \<longrightarrow>
      evaluate (Placement_init (Problem_init (10, 10, 10) 1 2 1000 [(10, 10, 5), (10, 10, 5)]))
         (Problem_init (10, 10, 10) 1 2 1000 [(10, 10, 5), (10, 10, 5)]) [p0, p1, g0, g1]
      = (Inr (Fin 2),
         \<lparr> bin_size = (10, 10, 10), n_bins = 1, n_items = 2, total_volume = 1000, used_bins = 1,
           total_items = 2, bins = [\<lparr> size_of = (10, 10, 10), EMSs = [], load = 1000 \<rparr>],
           loads = Some [1000] \<rparr>,
         \<lparr> P_bin_size = (10, 10, 10), P_n_bins = 1, P_n_items = 2, P_total_volume = 1000,
           P_items = [Some (10, 10, 5), Some (10, 10, 5)], P_total_items = 2, P_used_bins = 1,
           P_loads = Some [1000], best_fitness = Fin 2 \<rparr>))"
proof (intro conjI impI)
  assume ev: "evaluate pl pr solution = (Inr f, pl', pr')"
  obtain e1 pr1 where d: "decode pl pr solution = (e1, pr1)" by (cases "decode pl pr solution")
  obtain e2 pl1 where l: "items_loop (P_items pr1) pl = (e2, pl1)" by (cases "items_loop (P_items pr1) pl")
  have e1: "e1 = None" using ev d by (cases e1) (simp_all add: evaluate_def)
  have e2: "e2 = None" using ev d l e1 by (cases e2) (simp_all add: evaluate_def)
  obtain m where m: "np_min (map load (bins pl1)) = Inr m"
    using ev d l e1 e2 by (cases "np_min (map load (bins pl1))") (simp_all add: evaluate_def Let_def)
  have pl': "pl' = pl1 \<lparr> loads := Some (map load (bins pl1)) \<rparr>"
    and f: "f = int_plus (used_bins pl1) (true_divide m (volume (bin_size pl1)))"
    using ev d l e1 e2 m by (simp_all add: evaluate_def Let_def)
  have mm: "map load (bins pl1) \<noteq> [] \<and> m = Min (set (map load (bins pl1)))"
    using m by (rule np_min_Min)
  show "loads pl' = Some (map load (bins pl'))" using pl' by simp
  show "bins pl' \<noteq> []" using pl' mm by auto
  show "f = int_plus (used_bins pl') (true_divide (Min (set (map load (bins pl')))) (volume (bin_size pl')))"
    using pl' f mm by simp
  then show "f = Fin (real_of_int (used_bins pl') +
                  real_of_int (Min (set (map load (bins pl')))) / real_of_int (volume (bin_size pl')))"
    if "volume (bin_size pl') \<noteq> 0"
    using that by (simp add: true_divide_def)
next
  assume g: "get_orientation g0 = 1 \<and> get_orientation g1 = 1"
  show "evaluate (Placement_init (Problem_init (10, 10, 10) 1 2 1000 [(10, 10, 5), (10, 10, 5)]))
         (Problem_init (10, 10, 10) 1 2 1000 [(10, 10, 5), (10, 10, 5)]) [p0, p1, g0, g1]
      = (Inr (Fin 2),
         \<lparr> bin_size = (10, 10, 10), n_bins = 1, n_items = 2, total_volume = 1000, used_bins = 1,
           total_items = 2, bins = [\<lparr> size_of = (10, 10, 10), EMSs = [], load = 1000 \<rparr>],
           loads = Some [1000] \<rparr>,
         \<lparr> P_bin_size = (10, 10, 10), P_n_bins = 1, P_n_items = 2, P_total_volume = 1000,
           P_items = [Some (10, 10, 5), Some (10, 10, 5)], P_total_items = 2, P_used_bins = 1,
           P_loads = Some [1000], best_fitness = Fin 2 \<rparr>)"
    using g
    by (simp add: Problem_init_def Placement_init_def decode_def argsort_def
         evaluate_def place_item_def choose_EMS_def fit_def distance_def update_def new_EMSs_def
         degenerate_def inscribed_def Bin_init_def true_divide_def volume_def Let_def upt_conv_Cons)
qed

theorem evaluate_fitness_witness:
  "get_orientation (1/8) = 1 \<and>
   evaluate (Placement_init (Problem_init (10, 10, 10) 1 2 1000 [(10, 10, 5), (10, 10, 5)]))
         (Problem_init (10, 10, 10) 1 2 1000 [(10, 10, 5), (10, 10, 5)]) [1/2, 1/4, 1/8, 1/8]
      = (Inr (Fin 2),
         \<lparr> bin_size = (10, 10, 10), n_bins = 1, n_items = 2, total_volume = 1000, used_bins = 1,
           total_items = 2, bins = [\<lparr> size_of = (10, 10, 10), EMSs = [], load = 1000 \<rparr>],
           loads = Some [1000] \<rparr>,
         \<lparr> P_bin_size = (10, 10, 10), P_n_bins = 1, P_n_items = 2, P_total_volume = 1000,
           P_items = [Some (10, 10, 5), Some (10, 10, 5)], P_total_items = 2, P_used_bins = 1,
           P_loads = Some [1000], best_fitness = Fin 2 \<rparr>) \<and>
   volume (10, 10, 10) \<noteq> 0 \<and>
   Fin 2 = Fin (real_of_int 1 + real_of_int (Min (set [1000])) / real_of_int (volume (10, 10, 10)))"
proof -
  have g: "get_orientation (1/8) = 1" by (simp add: get_orientation_def)
  note inst = evaluate_fitness [of
        "Placement_init (Problem_init (10, 10, 10) 1 2 1000 [(10, 10, 5), (10, 10, 5)])"
        "Problem_init (10, 10, 10) 1 2 1000 [(10, 10, 5), (10, 10, 5)]" "[1/2, 1/4, 1/8, 1/8]" "Fin 2"
        "\<lparr> bin_size = (10, 10, 10), n_bins = 1, n_items = 2, total_volume = 1000, used_bins = 1,
           total_items = 2, bins = [\<lparr> size_of = (10, 10, 10), EMSs = [], load = 1000 \<rparr>],
           loads = Some [1000] \<rparr>"
        "\<lparr> P_bin_size = (10, 10, 10), P_n_bins = 1, P_n_items = 2, P_total_volume = 1000,
           P_items = [Some (10, 10, 5), Some (10, 10, 5)], P_total_items = 2, P_used_bins = 1,
           P_loads = Some [1000], best_fitness = Fin 2 \<rparr>" "1/8" "1/8" "1/2" "1/4"]
  have run: "evaluate (Placement_init (Problem_init (10, 10, 10) 1 2 1000 [(10, 10, 5), (10, 10, 5)]))
         (Problem_init (10, 10, 10) 1 2 1000 [(10, 10, 5), (10, 10, 5)]) [1/2, 1/4, 1/8, 1/8]
      = (Inr (Fin 2),
         \<lparr> bin_size = (10, 10, 10), n_bins = 1, n_items = 2, total_volume = 1000, used_bins = 1,
           total_items = 2, bins = [\<lparr> size_of = (10, 10, 10), EMSs = [], load = 1000 \<rparr>],
           loads = Some [1000] \<rparr>,
         \<lparr> P_bin_size = (10, 10, 10), P_n_bins = 1, P_n_items = 2, P_total_volume = 1000,
           P_items = [Some (10, 10, 5), Some (10, 10, 5)], P_total_items = 2, P_used_bins = 1,
           P_loads = Some [1000], best_fitness = Fin 2 \<rparr>)"
    using g inst by simp
  show ?thesis
    using g run inst by (simp add: volume_def)
qed

end
